theory Spec2Isabelle
  imports Complex_Main
begin

section \<open>JavaScript values, maps and clock readings\<close>

text \<open>
  The requirement map of a plan is a \<^verbatim>\<open>Map<string, any>\<close>. The values the planner
  inspects are booleans and strings; numbers, \<^verbatim>\<open>null\<close> and \<^verbatim>\<open>undefined\<close> are the other
  primitive values a caller can store. A JavaScript number is modelled as an exact
  rational: every finite double is one; NaN and the infinities are left out.
\<close>

datatype jsval = JUndefined | JNull | JBool bool | JNum rat | JStr string

text \<open>
  A JavaScript \<^verbatim>\<open>Map\<close> iterates in insertion order, and \<^verbatim>\<open>set\<close> on a key that is
  already present replaces the value where it stands. It is an association list with
  one entry for each key.
\<close>

type_synonym ('k, 'v) jsmap = "('k \<times> 'v) list"

fun jsmap_set :: "'k \<Rightarrow> 'v \<Rightarrow> ('k, 'v) jsmap \<Rightarrow> ('k, 'v) jsmap" where
  "jsmap_set k v [] = [(k, v)]"
| "jsmap_set k v ((k', v') # m) =
     (if k' = k then (k, v) # m else (k', v') # jsmap_set k v m)"

definition jsmap_get :: "'k \<Rightarrow> ('k, 'v) jsmap \<Rightarrow> 'v option" where
  "jsmap_get k m = map_of m k"

definition jsmap_has :: "'k \<Rightarrow> ('k, 'v) jsmap \<Rightarrow> bool" where
  "jsmap_has k m = (map_of m k \<noteq> None)"

definition jsmap_values :: "('k, 'v) jsmap \<Rightarrow> 'v list" where
  "jsmap_values m = map snd m"

definition jsmap_size :: "('k, 'v) jsmap \<Rightarrow> nat" where
  "jsmap_size m = length m"

text \<open>
  \<^verbatim>\<open>Date.now()\<close> and \<^verbatim>\<open>new Date()\<close> read the clock. An operation takes the readings
  it makes as a function: \<open>clk i\<close> is what its \<open>i\<close>-th reading returns, in
  milliseconds. A template string renders the reading in decimal.
\<close>

type_synonym clock = "nat \<Rightarrow> nat"

definition digit_char :: "nat \<Rightarrow> char" where
  "digit_char d = ''0123456789'' ! d"

fun show_nat :: "nat \<Rightarrow> string" where
  "show_nat n =
     (if n < 10 then [digit_char n] else show_nat (n div 10) @ [digit_char (n mod 10)])"

declare show_nat.simps [simp del]

text \<open>
  A JavaScript array is an object, held by reference. A step holds a reference to its
  \<^verbatim>\<open>dependencies\<close> array, and the content of the arrays is a heap that maps a reference
  to what the array holds. Copying a step with an object spread copies the reference:
  the copy and the original then share one array, and a write through either is seen
  through both.
\<close>

type_synonym array_ref = nat

type_synonym arrays = "array_ref \<Rightarrow> string list"

text \<open>\<^verbatim>\<open>Array.prototype.push\<close> on the array at a reference.\<close>

definition array_push :: "array_ref \<Rightarrow> string \<Rightarrow> arrays \<Rightarrow> arrays" where
  "array_push r x h = h(r := h r @ [x])"

section \<open>The data model (utils/types.ts)\<close>

text \<open>
  \<^verbatim>\<open>ProjectType\<close> and \<^verbatim>\<open>StepType\<close> are unions of string literals, erased at run
  time: the planner looks a project type up in a map keyed by strings and the
  executor has a branch for a step type outside the union. Both are strings here.
  The status types are only ever written by the code, and are datatypes.
\<close>

type_synonym ProjectType = string
type_synonym StepType = string

datatype ProjectStatus = Planning | Active | Executing | Completed | Stopped | Failed

datatype StepStatus = Pending | In_progress | Step_completed | Step_failed | Skipped

datatype PlanStatus = Draft | Approved | Plan_executing | Plan_completed | Plan_failed

record Agent =
  agent_name :: string
  agent_description :: string
  agent_version :: string

record Project =
  proj_id :: string
  proj_name :: string
  proj_type :: ProjectType
  proj_description :: string
  proj_status :: ProjectStatus
  proj_createdAt :: nat
  proj_updatedAt :: nat
  proj_metadata :: "(string, jsval) jsmap"

record ExecutionStep =
  step_id :: string
  step_name :: string
  step_description :: string
  step_type :: StepType
  step_dependencies :: array_ref
  step_estimatedDuration :: rat
  step_required :: bool
  step_order :: int
  step_status :: "StepStatus option"
  step_startedAt :: "nat option"
  step_completedAt :: "nat option"
  step_error :: "string option"
  step_metadata :: "(string, jsval) jsmap option"

record ExecutionPlan =
  plan_id :: string
  plan_projectId :: string
  plan_projectType :: ProjectType
  plan_steps :: "ExecutionStep list"
  plan_status :: PlanStatus
  plan_createdAt :: nat
  plan_updatedAt :: nat
  plan_estimatedDuration :: rat
  plan_requirements :: "(string, jsval) jsmap"

text \<open>\<^verbatim>\<open>Partial<ExecutionPlan>\<close>: every field may be absent.\<close>

record PlanUpdates =
  upd_id :: "string option"
  upd_projectId :: "string option"
  upd_projectType :: "ProjectType option"
  upd_steps :: "ExecutionStep list option"
  upd_status :: "PlanStatus option"
  upd_createdAt :: "nat option"
  upd_updatedAt :: "nat option"
  upd_estimatedDuration :: "rat option"
  upd_requirements :: "(string, jsval) jsmap option"

definition no_updates :: PlanUpdates where
  "no_updates = \<lparr>upd_id = None, upd_projectId = None, upd_projectType = None,
     upd_steps = None, upd_status = None, upd_createdAt = None, upd_updatedAt = None,
     upd_estimatedDuration = None, upd_requirements = None\<rparr>"

text \<open>A thrown \<^verbatim>\<open>new Error(message)\<close> is a value carrying the message.\<close>

datatype error = Error string

section \<open>The planner (PlannerAgent)\<close>

text \<open>
  A step literal of a template: the optional fields are absent, and the
  \<^verbatim>\<open>dependencies\<close> literal is a fresh array, given here by its reference.
\<close>

definition template_step ::
  "string \<Rightarrow> string \<Rightarrow> string \<Rightarrow> StepType \<Rightarrow> array_ref \<Rightarrow> rat \<Rightarrow> bool \<Rightarrow> int
     \<Rightarrow> ExecutionStep" where
  "template_step i n d t deps dur req ord =
     \<lparr>step_id = i, step_name = n, step_description = d, step_type = t,
      step_dependencies = deps, step_estimatedDuration = dur, step_required = req,
      step_order = ord, step_status = None, step_startedAt = None,
      step_completedAt = None, step_error = None, step_metadata = None\<rparr>"

definition website_template :: "ExecutionStep list" where
  "website_template =
    [template_step ''setup_repo'' ''Setup GitHub Repository''
       ''Create and configure GitHub repository for the project''
       ''setup'' 0 30 True 1,
     template_step ''setup_project'' ''Initialize Project Structure''
       ''Create basic project structure and configuration files''
       ''setup'' 1 45 True 2,
     template_step ''design_architecture'' ''Design System Architecture''
       ''Plan the overall system architecture and component structure''
       ''planning'' 2 60 True 3,
     template_step ''setup_database'' ''Setup Database''
       ''Configure database schema and connections''
       ''infrastructure'' 3 90 True 4,
     template_step ''create_backend'' ''Create Backend API''
       ''Develop backend API endpoints and business logic''
       ''development'' 4 180 True 5,
     template_step ''create_frontend'' ''Create Frontend Interface''
       ''Develop user interface and frontend components''
       ''development'' 5 240 True 6,
     template_step ''setup_cms'' ''Setup Content Management''
       ''Configure CMS integration and content management''
       ''integration'' 6 120 False 7,
     template_step ''setup_deployment'' ''Setup Deployment Pipeline''
       ''Configure CI/CD and deployment infrastructure''
       ''deployment'' 7 90 True 8,
     template_step ''testing'' ''Testing and Quality Assurance''
       ''Perform comprehensive testing and quality checks''
       ''testing'' 8 120 True 9,
     template_step ''deployment'' ''Deploy to Production''
       ''Deploy the application to production environment''
       ''deployment'' 9 60 True 10]"

definition automation_template :: "ExecutionStep list" where
  "automation_template =
    [template_step ''analyze_requirements'' ''Analyze Automation Requirements''
       ''Understand the process to be automated and its requirements''
       ''analysis'' 10 60 True 1,
     template_step ''design_workflow'' ''Design Workflow''
       ''Design the automation workflow and decision logic''
       ''planning'' 11 90 True 2,
     template_step ''setup_integrations'' ''Setup Integrations''
       ''Configure integrations with external systems and APIs''
       ''integration'' 12 120 True 3,
     template_step ''create_workflow'' ''Create Automation Workflow''
       ''Build the automation workflow using n8n or similar tool''
       ''development'' 13 180 True 4,
     template_step ''setup_monitoring'' ''Setup Monitoring and Alerts''
       ''Configure monitoring, logging, and alerting systems''
       ''infrastructure'' 14 90 True 5,
     template_step ''testing_automation'' ''Test Automation''
       ''Test the automation workflow with various scenarios''
       ''testing'' 15 120 True 6,
     template_step ''deploy_automation'' ''Deploy Automation''
       ''Deploy the automation to production environment''
       ''deployment'' 16 60 True 7]"

text \<open>
  The \<^verbatim>\<open>dependencies\<close> arrays that the template literals allocate: the references 0 to
  9 are those of the website template, 10 to 16 those of the automation template, in
  template order. Any other reference reads as an empty array.
\<close>

definition initial_arrays :: arrays where
  "initial_arrays r =
     (if r < 17
      then [[],
            [''setup_repo''],
            [''setup_project''],
            [''design_architecture''],
            [''setup_database''],
            [''create_backend''],
            [''create_backend''],
            [''create_frontend''],
            [''setup_deployment''],
            [''testing''],
            [],
            [''analyze_requirements''],
            [''design_workflow''],
            [''setup_integrations''],
            [''create_workflow''],
            [''setup_monitoring''],
            [''testing_automation'']] ! r
      else [])"

text \<open>
  The private \<^verbatim>\<open>templates\<close> map is filled once by the constructor. The map, its
  lists and the step objects in them are never written again and never handed out
  (\<^verbatim>\<open>customizeSteps\<close> returns fresh step objects), so the map is a constant. What
  the planner does hand out is the \<^verbatim>\<open>dependencies\<close> array of each template step, which
  every step generated from it shares: the content of those arrays is not constant,
  and is read from the heap of arrays.
\<close>

definition initializeTemplates :: "(string, ExecutionStep list) jsmap" where
  "initializeTemplates =
     jsmap_set ''automation'' automation_template
       (jsmap_set ''website'' website_template [])"

text \<open>The planner's mutable state is its own plan store.\<close>

record planner_state =
  pl_plans :: "(string, ExecutionPlan) jsmap"

definition shouldIncludeStep :: "ExecutionStep \<Rightarrow> (string, jsval) jsmap \<Rightarrow> bool" where
  "shouldIncludeStep step requirements =
     (if step_required step then True
      else if step_id step = ''setup_cms''
        then jsmap_has ''cms'' requirements \<and> jsmap_get ''cms'' requirements = Some (JBool True)
      else if step_id step = ''setup_monitoring''
        then jsmap_has ''monitoring'' requirements
               \<and> jsmap_get ''monitoring'' requirements = Some (JBool True)
      else True)"

text \<open>
  \<^verbatim>\<open>Math.round\<close> returns the nearest integer, a tie going up. The products of
  \<^verbatim>\<open>adjustDuration\<close> are taken exactly: a template duration times 1.5 is exact in
  double precision, and times 0.8 it is within a rounding error of the exact value,
  far from any tie.
\<close>

definition Math_round :: "rat \<Rightarrow> rat" where
  "Math_round x = of_int \<lfloor>x + 1 / 2\<rfloor>"

definition adjustDuration :: "ExecutionStep \<Rightarrow> (string, jsval) jsmap \<Rightarrow> rat" where
  "adjustDuration step requirements =
     (let duration = step_estimatedDuration step;
          duration =
            (if jsmap_has ''complexity'' requirements then
               (let complexity = jsmap_get ''complexity'' requirements in
                if complexity = Some (JStr ''high'') then duration * (3 / 2)
                else if complexity = Some (JStr ''low'') then duration * (4 / 5)
                else duration)
             else duration)
      in Math_round duration)"

text \<open>
  The loop of \<^verbatim>\<open>customizeSteps\<close>; \<open>k\<close> counts the clock readings made so far, one
  for each step that is kept.
\<close>

fun customizeSteps_from ::
  "clock \<Rightarrow> nat \<Rightarrow> ExecutionStep list \<Rightarrow> (string, jsval) jsmap \<Rightarrow> ExecutionStep list" where
  "customizeSteps_from clk k [] requirements = []"
| "customizeSteps_from clk k (step # template) requirements =
     (if shouldIncludeStep step requirements
      then step\<lparr>step_id := step_id step @ ''_'' @ show_nat (clk k),
                step_estimatedDuration := adjustDuration step requirements\<rparr>
             # customizeSteps_from clk (Suc k) template requirements
      else customizeSteps_from clk k template requirements)"

definition customizeSteps ::
  "clock \<Rightarrow> ExecutionStep list \<Rightarrow> (string, jsval) jsmap \<Rightarrow> ExecutionStep list" where
  "customizeSteps clk template requirements = customizeSteps_from clk 0 template requirements"

text \<open>
  \<^verbatim>\<open>steps.reduce((total, step) => total + step.estimatedDuration, 0)\<close>. The \<^verbatim>\<open>+\<close> of
  JavaScript numbers is the addition of double-precision floating point, which rounds
  its result. The fold is therefore defined for any addition \<open>add\<close>, and what is
  proved of it for every \<open>add\<close> holds of the floating-point addition.
\<close>

definition reduce_durations :: "(rat \<Rightarrow> rat \<Rightarrow> rat) \<Rightarrow> ExecutionStep list \<Rightarrow> rat" where
  "reduce_durations add steps =
     foldl (\<lambda>total step. add total (step_estimatedDuration step)) 0 steps"

text \<open>
  \<^verbatim>\<open>createPlan\<close> sums results of \<^verbatim>\<open>Math.round\<close>: whole numbers, of a size at which
  the floating-point addition is exact. For these the addition is the exact one.
\<close>

definition calculateTotalDuration :: "ExecutionStep list \<Rightarrow> rat" where
  "calculateTotalDuration steps = reduce_durations (+) steps"

text \<open>
  \<^verbatim>\<open>createPlan\<close> reads the clock once for each kept step, then for the plan's id,
  \<^verbatim>\<open>createdAt\<close> and \<^verbatim>\<open>updatedAt\<close>. An operation returns its result, or the error it
  throws, together with the state it leaves.
\<close>

definition createPlan ::
  "clock \<Rightarrow> string \<Rightarrow> ProjectType \<Rightarrow> (string, jsval) jsmap \<Rightarrow> planner_state
     \<Rightarrow> (error + ExecutionPlan) \<times> planner_state" where
  "createPlan clk projectId projectType requirements s =
     (case jsmap_get projectType initializeTemplates of
        None \<Rightarrow> (Inl (Error (''No template found for project type: '' @ projectType)), s)
      | Some template \<Rightarrow>
          (let steps = customizeSteps clk template requirements;
               n = length steps;
               plan = \<lparr>plan_id = ''plan_'' @ projectId @ ''_'' @ show_nat (clk n),
                       plan_projectId = projectId,
                       plan_projectType = projectType,
                       plan_steps = steps,
                       plan_status = Draft,
                       plan_createdAt = clk (n + 1),
                       plan_updatedAt = clk (n + 2),
                       plan_estimatedDuration = calculateTotalDuration steps,
                       plan_requirements = requirements\<rparr>
           in (Inr plan, s\<lparr>pl_plans := jsmap_set (plan_id plan) plan (pl_plans s)\<rparr>)))"

definition getPlan :: "string \<Rightarrow> planner_state \<Rightarrow> ExecutionPlan option" where
  "getPlan planId s = jsmap_get planId (pl_plans s)"

text \<open>
  The object spread \<^verbatim>\<open>{...plan, ...updates, updatedAt: new Date()}\<close>: a field present
  in \<open>updates\<close> replaces the plan's, and \<^verbatim>\<open>updatedAt\<close> is written last.
\<close>

definition apply_updates :: "ExecutionPlan \<Rightarrow> PlanUpdates \<Rightarrow> nat \<Rightarrow> ExecutionPlan" where
  "apply_updates plan updates now =
     \<lparr>plan_id = (case upd_id updates of None \<Rightarrow> plan_id plan | Some v \<Rightarrow> v),
      plan_projectId =
        (case upd_projectId updates of None \<Rightarrow> plan_projectId plan | Some v \<Rightarrow> v),
      plan_projectType =
        (case upd_projectType updates of None \<Rightarrow> plan_projectType plan | Some v \<Rightarrow> v),
      plan_steps = (case upd_steps updates of None \<Rightarrow> plan_steps plan | Some v \<Rightarrow> v),
      plan_status = (case upd_status updates of None \<Rightarrow> plan_status plan | Some v \<Rightarrow> v),
      plan_createdAt =
        (case upd_createdAt updates of None \<Rightarrow> plan_createdAt plan | Some v \<Rightarrow> v),
      plan_updatedAt = now,
      plan_estimatedDuration =
        (case upd_estimatedDuration updates of
           None \<Rightarrow> plan_estimatedDuration plan | Some v \<Rightarrow> v),
      plan_requirements =
        (case upd_requirements updates of None \<Rightarrow> plan_requirements plan | Some v \<Rightarrow> v)\<rparr>"

definition updatePlan ::
  "clock \<Rightarrow> string \<Rightarrow> PlanUpdates \<Rightarrow> planner_state
     \<Rightarrow> (error + ExecutionPlan) \<times> planner_state" where
  "updatePlan clk planId updates s =
     (case jsmap_get planId (pl_plans s) of
        None \<Rightarrow> (Inl (Error (''Plan '' @ planId @ '' not found'')), s)
      | Some plan \<Rightarrow>
          (let updatedPlan = apply_updates plan updates (clk 0)
           in (Inr updatedPlan, s\<lparr>pl_plans := jsmap_set planId updatedPlan (pl_plans s)\<rparr>)))"

definition approvePlan ::
  "clock \<Rightarrow> string \<Rightarrow> planner_state \<Rightarrow> (error + ExecutionPlan) \<times> planner_state" where
  "approvePlan clk planId s = updatePlan clk planId (no_updates\<lparr>upd_status := Some Approved\<rparr>) s"

definition getProjectPlans :: "string \<Rightarrow> planner_state \<Rightarrow> ExecutionPlan list" where
  "getProjectPlans projectId s =
     filter (\<lambda>plan. plan_projectId plan = projectId) (jsmap_values (pl_plans s))"

definition addStep ::
  "clock \<Rightarrow> string \<Rightarrow> ExecutionStep \<Rightarrow> planner_state
     \<Rightarrow> (error + ExecutionPlan) \<times> planner_state" where
  "addStep clk planId step s =
     (case jsmap_get planId (pl_plans s) of
        None \<Rightarrow> (Inl (Error (''Plan '' @ planId @ '' not found'')), s)
      | Some plan \<Rightarrow>
          (let updatedSteps = plan_steps plan @ [step]
           in updatePlan clk planId (no_updates\<lparr>upd_steps := Some updatedSteps\<rparr>) s))"

section \<open>The executor (ExecutorAgent)\<close>

text \<open>
  \<^verbatim>\<open>executeStepByType\<close> waits and logs for each of the eight step types and throws
  for any other; \<^verbatim>\<open>executeStep\<close> catches the throw and reports \<^verbatim>\<open>false\<close>.
\<close>

definition executeStepByType :: "ExecutionStep \<Rightarrow> string \<Rightarrow> error + unit" where
  "executeStepByType step projectId =
     (if step_type step = ''setup'' then Inr ()
      else if step_type step = ''planning'' then Inr ()
      else if step_type step = ''development'' then Inr ()
      else if step_type step = ''testing'' then Inr ()
      else if step_type step = ''deployment'' then Inr ()
      else if step_type step = ''integration'' then Inr ()
      else if step_type step = ''infrastructure'' then Inr ()
      else if step_type step = ''analysis'' then Inr ()
      else Inl (Error (''Unknown step type: '' @ step_type step)))"

definition executeStep :: "ExecutionStep \<Rightarrow> string \<Rightarrow> bool" where
  "executeStep step projectId =
     (case executeStepByType step projectId of Inr _ \<Rightarrow> True | Inl _ \<Rightarrow> False)"

section \<open>The orchestrator\<close>

record orchestrator_state =
  agents :: "(string, Agent) jsmap"
  projects :: "(string, Project) jsmap"
  plans :: "(string, ExecutionPlan) jsmap"
  isShutdown :: bool

definition new_orchestrator :: orchestrator_state where
  "new_orchestrator = \<lparr>agents = [], projects = [], plans = [], isShutdown = False\<rparr>"

definition registerAgent :: "Agent \<Rightarrow> orchestrator_state \<Rightarrow> orchestrator_state" where
  "registerAgent agent s = s\<lparr>agents := jsmap_set (agent_name agent) agent (agents s)\<rparr>"

definition getAgent :: "string \<Rightarrow> orchestrator_state \<Rightarrow> Agent option" where
  "getAgent name s = jsmap_get name (agents s)"

text \<open>\<^verbatim>\<open>description || ''\<close>: an absent description is the empty string.\<close>

definition createProject ::
  "clock \<Rightarrow> string \<Rightarrow> ProjectType \<Rightarrow> string option \<Rightarrow> orchestrator_state
     \<Rightarrow> Project \<times> orchestrator_state" where
  "createProject clk name type description s =
     (let project = \<lparr>proj_id = ''project_'' @ show_nat (clk 0),
                      proj_name = name,
                      proj_type = type,
                      proj_description = (case description of None \<Rightarrow> [] | Some d \<Rightarrow> d),
                      proj_status = Planning,
                      proj_createdAt = clk 1,
                      proj_updatedAt = clk 2,
                      proj_metadata = []\<rparr>
      in (project, s\<lparr>projects := jsmap_set (proj_id project) project (projects s)\<rparr>))"

definition getProject :: "string \<Rightarrow> orchestrator_state \<Rightarrow> Project option" where
  "getProject projectId s = jsmap_get projectId (projects s)"

text \<open>
  The status assignments mutate the project object that the map holds: the entry
  under the project's key is replaced where it stands.
\<close>

definition startProject ::
  "clock \<Rightarrow> string \<Rightarrow> orchestrator_state \<Rightarrow> (error + unit) \<times> orchestrator_state" where
  "startProject clk projectId s =
     (case jsmap_get projectId (projects s) of
        None \<Rightarrow> (Inl (Error (''Project '' @ projectId @ '' not found'')), s)
      | Some project \<Rightarrow>
          (Inr (), s\<lparr>projects :=
             jsmap_set projectId (project\<lparr>proj_status := Active, proj_updatedAt := clk 0\<rparr>)
               (projects s)\<rparr>))"

definition stopProject ::
  "clock \<Rightarrow> string \<Rightarrow> orchestrator_state \<Rightarrow> (error + unit) \<times> orchestrator_state" where
  "stopProject clk projectId s =
     (case jsmap_get projectId (projects s) of
        None \<Rightarrow> (Inl (Error (''Project '' @ projectId @ '' not found'')), s)
      | Some project \<Rightarrow>
          (Inr (), s\<lparr>projects :=
             jsmap_set projectId (project\<lparr>proj_status := Stopped, proj_updatedAt := clk 0\<rparr>)
               (projects s)\<rparr>))"

definition generateExecutionPlan ::
  "clock \<Rightarrow> string \<Rightarrow> orchestrator_state
     \<Rightarrow> (error + ExecutionPlan) \<times> orchestrator_state" where
  "generateExecutionPlan clk projectId s =
     (case jsmap_get projectId (projects s) of
        None \<Rightarrow> (Inl (Error (''Project '' @ projectId @ '' not found'')), s)
      | Some project \<Rightarrow>
          (case jsmap_get ''planner'' (agents s) of
             None \<Rightarrow> (Inl (Error ''Planner agent not found''), s)
           | Some planner \<Rightarrow>
               (let plan = \<lparr>plan_id = ''plan_'' @ projectId @ ''_'' @ show_nat (clk 0),
                            plan_projectId = projectId,
                            plan_projectType = proj_type project,
                            plan_steps = [],
                            plan_status = Draft,
                            plan_createdAt = clk 1,
                            plan_updatedAt = clk 2,
                            plan_estimatedDuration = 0,
                            plan_requirements = []\<rparr>
                in (Inr plan, s\<lparr>plans := jsmap_set (plan_id plan) plan (plans s)\<rparr>))))"

text \<open>
  The plan that \<^verbatim>\<open>executeProjectPlan\<close> resolves:
  \<^verbatim>\<open>Array.from(this.plans.values()).find(p => p.projectId === projectId)\<close>.
\<close>

definition resolvePlan :: "string \<Rightarrow> orchestrator_state \<Rightarrow> ExecutionPlan option" where
  "resolvePlan projectId s =
     find (\<lambda>p. plan_projectId p = projectId) (jsmap_values (plans s))"

text \<open>
  \<^verbatim>\<open>executeProjectPlan\<close> up to its \<^verbatim>\<open>await\<close> of the two-second timer, and from there
  to its end; the whole call is the one after the other.
\<close>

definition executeProjectPlan_begin ::
  "clock \<Rightarrow> string \<Rightarrow> orchestrator_state \<Rightarrow> (error + unit) \<times> orchestrator_state" where
  "executeProjectPlan_begin clk projectId s =
     (case jsmap_get projectId (projects s) of
        None \<Rightarrow> (Inl (Error (''Project '' @ projectId @ '' not found'')), s)
      | Some project \<Rightarrow>
          (case resolvePlan projectId s of
             None \<Rightarrow> (Inl (Error (''No plan found for project '' @ projectId)), s)
           | Some plan \<Rightarrow>
               (Inr (), s\<lparr>projects :=
                  jsmap_set projectId
                    (project\<lparr>proj_status := Executing, proj_updatedAt := clk 0\<rparr>)
                    (projects s)\<rparr>)))"

definition executeProjectPlan_finish ::
  "clock \<Rightarrow> string \<Rightarrow> orchestrator_state \<Rightarrow> orchestrator_state" where
  "executeProjectPlan_finish clk projectId s =
     (case jsmap_get projectId (projects s) of
        None \<Rightarrow> s
      | Some project \<Rightarrow>
          s\<lparr>projects :=
             jsmap_set projectId
               (project\<lparr>proj_status := Completed, proj_updatedAt := clk 1\<rparr>)
               (projects s)\<rparr>)"

definition executeProjectPlan ::
  "clock \<Rightarrow> string \<Rightarrow> orchestrator_state \<Rightarrow> (error + unit) \<times> orchestrator_state" where
  "executeProjectPlan clk projectId s =
     (case executeProjectPlan_begin clk projectId s of
        (Inl e, s') \<Rightarrow> (Inl e, s')
      | (Inr _, s') \<Rightarrow> (Inr (), executeProjectPlan_finish clk projectId s'))"

definition shutdown :: "orchestrator_state \<Rightarrow> orchestrator_state" where
  "shutdown s = s\<lparr>isShutdown := True, agents := [], projects := [], plans := []\<rparr>"

section \<open>Fixtures\<close>

text \<open>A clock that starts at \<open>t\<close> and advances one millisecond with each reading.\<close>

definition ticking :: "nat \<Rightarrow> clock" where
  "ticking t i = t + i"

definition planner_agent :: Agent where
  "planner_agent = \<lparr>agent_name = ''planner'',
     agent_description = ''Breaks tasks into detailed steps; updates plan as needed'',
     agent_version = ''1.0.0''\<rparr>"

text \<open>A fresh orchestrator in which one website project has been created.\<close>

definition demo_state :: orchestrator_state where
  "demo_state = snd (createProject (ticking 1000) ''demo'' ''website'' None new_orchestrator)"

text \<open>The planner is then registered and a plan is generated twice for the project.\<close>

definition demo_planned :: orchestrator_state where
  "demo_planned =
     snd (generateExecutionPlan (ticking 3000) ''project_1000''
       (snd (generateExecutionPlan (ticking 2000) ''project_1000''
         (registerAgent planner_agent demo_state))))"

definition demo_project :: Project where
  "demo_project = \<lparr>proj_id = ''project_1000'', proj_name = ''demo'', proj_type = ''website'',
     proj_description = [], proj_status = Planning, proj_createdAt = 1001,
     proj_updatedAt = 1002, proj_metadata = []\<rparr>"

definition demo_plan :: "nat \<Rightarrow> ExecutionPlan" where
  "demo_plan t = \<lparr>plan_id = ''plan_project_1000_'' @ show_nat t,
     plan_projectId = ''project_1000'', plan_projectType = ''website'', plan_steps = [],
     plan_status = Draft, plan_createdAt = t + 1, plan_updatedAt = t + 2,
     plan_estimatedDuration = 0, plan_requirements = []\<rparr>"

text \<open>
  A state whose only plan holds one required step of a type the executor does not
  know, so that \<^verbatim>\<open>executeStep\<close> reports failure for it. The steps of the fixtures
  have dependencies arrays of their own, at the references 100 to 102.
\<close>

definition failing_step :: ExecutionStep where
  "failing_step = template_step ''migrate_data'' ''Migrate Data'' ''Move the legacy records''
     ''migration'' 100 30 True 1"

definition failing_state :: orchestrator_state where
  "failing_state = demo_state\<lparr>plans :=
     [(''plan_project_1000_2000'', (demo_plan 2000)\<lparr>plan_steps := [failing_step]\<rparr>)]\<rparr>"

text \<open>Requirement maps, a fresh planner, and a step of no duration.\<close>

definition no_requirements :: "(string, jsval) jsmap" where
  "no_requirements = []"

definition cms_yes :: "(string, jsval) jsmap" where
  "cms_yes = jsmap_set ''cms'' (JStr ''yes'') []"

definition cms_on :: "(string, jsval) jsmap" where
  "cms_on = jsmap_set ''cms'' (JBool True) []"

definition monitoring_off :: "(string, jsval) jsmap" where
  "monitoring_off = jsmap_set ''monitoring'' (JBool False) []"

definition high_complexity :: "(string, jsval) jsmap" where
  "high_complexity = jsmap_set ''complexity'' (JStr ''high'') []"

definition notify_step :: ExecutionStep where
  "notify_step = template_step ''notify_team'' ''Notify Team'' ''Announce the rollout''
     ''deployment'' 101 0 False 8"

text \<open>The plan an operation of the planner returns, if it returns one.\<close>

definition returned_plan :: "(error + ExecutionPlan) \<times> planner_state \<Rightarrow> ExecutionPlan option" where
  "returned_plan r = (case fst r of Inl e \<Rightarrow> None | Inr plan \<Rightarrow> Some plan)"

definition new_planner :: planner_state where
  "new_planner = \<lparr>pl_plans = []\<rparr>"

text \<open>The planner after one automation plan has been created with no requirements.\<close>

definition planned :: planner_state where
  "planned =
     snd (createPlan (ticking 1000) ''project_1000'' ''automation'' no_requirements new_planner)"

definition monitoring_on :: "(string, jsval) jsmap" where
  "monitoring_on = jsmap_set ''monitoring'' (JBool True) []"

definition audit_step :: ExecutionStep where
  "audit_step = template_step ''audit_access'' ''Audit Access'' ''Review the access rules''
     ''testing'' 102 45 False 8"

text \<open>
  Two plans generated within one millisecond, every clock reading being 1000. Between
  the two calls the caller pushes the id of the first plan's first step onto the
  dependencies array of its second step.
\<close>

definition frozen :: "nat \<Rightarrow> clock" where
  "frozen t i = t"

definition first_result :: "(error + ExecutionPlan) \<times> planner_state" where
  "first_result =
     createPlan (frozen 1000) ''project_1000'' ''automation'' no_requirements new_planner"

definition written_arrays :: arrays where
  "written_arrays =
     (case returned_plan first_result of
        None \<Rightarrow> initial_arrays
      | Some p1 \<Rightarrow>
          array_push (step_dependencies (plan_steps p1 ! 1)) (step_id (plan_steps p1 ! 0))
            initial_arrays)"

definition second_result :: "(error + ExecutionPlan) \<times> planner_state" where
  "second_result =
     createPlan (frozen 1000) ''project_1000'' ''automation'' no_requirements
       (snd first_result)"

section \<open>The planner's claims in the words of the specification\<close>

text \<open>JavaScript truthiness of a primitive value.\<close>

fun truthy :: "jsval \<Rightarrow> bool" where
  "truthy JUndefined = False"
| "truthy JNull = False"
| "truthy (JBool b) = b"
| "truthy (JNum x) = (x \<noteq> 0)"
| "truthy (JStr s) = (s \<noteq> [])"

text \<open>
  The requirement key that gates an optional step: the CMS flag gates the CMS setup
  step, the monitoring flag gates the monitoring step.
\<close>

definition gating_key :: "string \<Rightarrow> string option" where
  "gating_key stepId =
     (if stepId = ''setup_cms'' then Some ''cms''
      else if stepId = ''setup_monitoring'' then Some ''monitoring''
      else None)"

text \<open>
  The steps the specification keeps: the required ones, and the optional ones whose
  gating key is present with a truthy value.
\<close>

definition kept_if_truthy :: "(string, jsval) jsmap \<Rightarrow> ExecutionStep \<Rightarrow> bool" where
  "kept_if_truthy requirements step =
     (step_required step \<or>
      (case gating_key (step_id step) of
         None \<Rightarrow> False
       | Some k \<Rightarrow> (case jsmap_get k requirements of None \<Rightarrow> False | Some v \<Rightarrow> truthy v)))"

text \<open>The same, with the gating key present with the boolean \<^verbatim>\<open>true\<close> and nothing else.\<close>

definition kept_if_true :: "(string, jsval) jsmap \<Rightarrow> ExecutionStep \<Rightarrow> bool" where
  "kept_if_true requirements step =
     (step_required step \<or>
      (case gating_key (step_id step) of
         None \<Rightarrow> False
       | Some k \<Rightarrow> jsmap_get k requirements = Some (JBool True)))"

text \<open>
  A generated step and the template step it comes from agree on every field but the
  id and the estimated duration; their dependencies are one and the same array.
\<close>

definition from_template_step :: "ExecutionStep \<Rightarrow> ExecutionStep \<Rightarrow> bool" where
  "from_template_step generated t =
     (generated = t\<lparr>step_id := step_id generated,
                     step_estimatedDuration := step_estimatedDuration generated\<rparr>)"

text \<open>
  The complexity multiplier: 1.5 when the requirement map maps \<^verbatim>\<open>complexity\<close> to
  \<^verbatim>\<open>'high'\<close>, 0.8 when to \<^verbatim>\<open>'low'\<close>, 1.0 otherwise.
\<close>

definition complexity_multiplier :: "(string, jsval) jsmap \<Rightarrow> rat" where
  "complexity_multiplier requirements =
     (if jsmap_get ''complexity'' requirements = Some (JStr ''high'') then 3 / 2
      else if jsmap_get ''complexity'' requirements = Some (JStr ''low'') then 4 / 5
      else 1)"

definition decimal_digits :: "char set" where
  "decimal_digits = set ''0123456789''"

text \<open>The template steps that \<^verbatim>\<open>customizeSteps\<close> keeps, in template order.\<close>

definition kept_steps :: "ExecutionStep list \<Rightarrow> (string, jsval) jsmap \<Rightarrow> ExecutionStep list" where
  "kept_steps template requirements = filter (\<lambda>t. shouldIncludeStep t requirements) template"

section \<open>Facts about the maps, the clock rendering and the planner\<close>

lemma jsmap_get_set_same: "jsmap_get k (jsmap_set k v m) = Some v"
  by (induction m) (auto simp: jsmap_get_def)

lemma jsmap_get_set_other: "k' \<noteq> k \<Longrightarrow> jsmap_get k' (jsmap_set k v m) = jsmap_get k' m"
  by (induction m) (auto simp: jsmap_get_def)

lemma templates_keys:
  "jsmap_get projectType initializeTemplates =
     (if projectType = ''automation'' then Some automation_template
      else if projectType = ''website'' then Some website_template else None)"
  by (simp add: jsmap_get_def initializeTemplates_def)

lemma digit_char_in: "d < 10 \<Longrightarrow> digit_char d \<in> decimal_digits"
  unfolding digit_char_def decimal_digits_def by (rule nth_mem) simp

lemma show_nat_nonempty: "show_nat n \<noteq> []"
  by (subst show_nat.simps) simp

lemma last_show_nat: "last (show_nat n) \<in> decimal_digits"
proof (cases "n < 10")
  case True
  then show ?thesis by (subst show_nat.simps) (simp add: digit_char_in)
next
  case False
  have "n mod 10 < 10" by simp
  then have "digit_char (n mod 10) \<in> decimal_digits" by (rule digit_char_in)
  with False show ?thesis by (subst show_nat.simps) simp
qed

lemma last_suffixed: "last (i @ ''_'' @ show_nat n) \<in> decimal_digits"
  using last_show_nat [of n] show_nat_nonempty [of n] by simp

lemma foldl_total:
  "foldl (\<lambda>total step. total + step_estimatedDuration step) a steps
     = a + sum_list (map step_estimatedDuration steps)"
  by (induction steps arbitrary: a) (simp_all add: add.assoc)

lemma calculateTotalDuration_sum:
  "calculateTotalDuration steps = sum_list (map step_estimatedDuration steps)"
  by (simp add: calculateTotalDuration_def reduce_durations_def foldl_total)

lemma customizeSteps_from_eq:
  "customizeSteps_from clk k template requirements =
     map (\<lambda>(i, t). t\<lparr>step_id := step_id t @ ''_'' @ show_nat (clk i),
                       step_estimatedDuration := adjustDuration t requirements\<rparr>)
       (enumerate k (filter (\<lambda>t. shouldIncludeStep t requirements) template))"
  by (induction template arbitrary: k) simp_all

lemma customizeSteps_length:
  "length (customizeSteps clk template requirements)
     = length (filter (\<lambda>t. shouldIncludeStep t requirements) template)"
  by (simp add: customizeSteps_def customizeSteps_from_eq)

lemma customizeSteps_nth:
  assumes "i < length (filter (\<lambda>t. shouldIncludeStep t requirements) template)"
  shows "customizeSteps clk template requirements ! i =
           (filter (\<lambda>t. shouldIncludeStep t requirements) template ! i)
             \<lparr>step_id := step_id (filter (\<lambda>t. shouldIncludeStep t requirements) template ! i)
                           @ ''_'' @ show_nat (clk i),
              step_estimatedDuration :=
                adjustDuration (filter (\<lambda>t. shouldIncludeStep t requirements) template ! i)
                  requirements\<rparr>"
  using assms by (simp add: customizeSteps_def customizeSteps_from_eq nth_enumerate_eq)

lemma adjustDuration_multiplier:
  "adjustDuration step requirements =
     of_int (round (step_estimatedDuration step * complexity_multiplier requirements))"
  by (simp add: adjustDuration_def complexity_multiplier_def Math_round_def round_def
        jsmap_has_def jsmap_get_def Let_def)

lemma createPlan_found:
  assumes "jsmap_get projectType initializeTemplates = Some template"
  shows "createPlan clk projectId projectType requirements s =
     (Inr (projr (fst (createPlan clk projectId projectType requirements s))),
      snd (createPlan clk projectId projectType requirements s))"
    and "plan_steps (projr (fst (createPlan clk projectId projectType requirements s)))
           = customizeSteps clk template requirements"
    and "plan_estimatedDuration (projr (fst (createPlan clk projectId projectType requirements s)))
           = calculateTotalDuration (customizeSteps clk template requirements)"
  using assms by (simp_all add: createPlan_def Let_def)

section \<open>The fixtures, evaluated\<close>

lemma show_nat_1000: "show_nat 1000 = ''1000''"
  by code_simp

lemma show_nat_2000: "show_nat 2000 = ''2000''"
  by code_simp

lemma show_nat_3000: "show_nat 3000 = ''3000''"
  by code_simp

lemma demo_state_eq:
  "demo_state = \<lparr>agents = [], projects = [(''project_1000'', demo_project)], plans = [],
     isShutdown = False\<rparr>"
  by (simp add: demo_state_def createProject_def new_orchestrator_def show_nat_1000
        ticking_def demo_project_def Let_def)

lemma demo_planned_eq:
  "demo_planned = \<lparr>agents = [(''planner'', planner_agent)],
     projects = [(''project_1000'', demo_project)],
     plans = [(''plan_project_1000_2000'', demo_plan 2000),
              (''plan_project_1000_3000'', demo_plan 3000)],
     isShutdown = False\<rparr>"
  by (simp add: demo_planned_def generateExecutionPlan_def registerAgent_def demo_state_eq
        jsmap_get_def planner_agent_def demo_plan_def demo_project_def show_nat_2000
        show_nat_3000 ticking_def Let_def)

lemma demo_planned_project:
  "jsmap_get ''project_1000'' (projects demo_planned) = Some demo_project"
  by (simp add: demo_planned_eq jsmap_get_def)

lemma demo_planned_resolve:
  "resolvePlan ''project_1000'' demo_planned = Some (demo_plan 2000)"
  by (simp add: resolvePlan_def demo_planned_eq jsmap_values_def demo_plan_def)

section \<open>Facts about the steps that \<^verbatim>\<open>customizeSteps\<close> keeps and generates\<close>

lemma kept_website:
  "\<forall>t \<in> set website_template. shouldIncludeStep t requirements = kept_if_true requirements t"
  by (auto simp: website_template_def template_step_def shouldIncludeStep_def kept_if_true_def
        gating_key_def jsmap_has_def jsmap_get_def)

lemma kept_automation:
  "\<forall>t \<in> set automation_template. shouldIncludeStep t requirements = kept_if_true requirements t"
  by (simp add: automation_template_def template_step_def shouldIncludeStep_def kept_if_true_def
        gating_key_def jsmap_has_def jsmap_get_def)

lemma kept_templates:
  assumes "jsmap_get projectType initializeTemplates = Some template"
  shows "filter (\<lambda>t. shouldIncludeStep t requirements) template
           = filter (kept_if_true requirements) template"
proof -
  have "template = website_template \<or> template = automation_template"
    using assms by (auto simp: templates_keys split: if_splits)
  then have "\<forall>t \<in> set template. shouldIncludeStep t requirements = kept_if_true requirements t"
    using kept_website kept_automation by blast
  then show ?thesis by (simp cong: filter_cong)
qed

lemma customizeSteps_from_template:
  "list_all2 from_template_step (customizeSteps clk template requirements)
     (filter (\<lambda>t. shouldIncludeStep t requirements) template)"
  unfolding list_all2_conv_all_nth
  by (simp add: customizeSteps_length customizeSteps_nth from_template_step_def)

lemma website_ids_plain:
  "\<forall>t \<in> set website_template. last (step_id t) \<notin> decimal_digits"
  by (simp add: website_template_def template_step_def decimal_digits_def)

lemma automation_ids_plain:
  "\<forall>t \<in> set automation_template. last (step_id t) \<notin> decimal_digits"
  by (simp add: automation_template_def template_step_def decimal_digits_def)

lemma templates_plain:
  assumes "jsmap_get projectType initializeTemplates = Some template"
  shows "\<forall>t \<in> set template. last (step_id t) \<notin> decimal_digits"
proof -
  have "template = website_template \<or> template = automation_template"
    using assms by (auto simp: templates_keys split: if_splits)
  then show ?thesis
    using website_ids_plain automation_ids_plain by blast
qed

lemma website_initial_arrays:
  "\<forall>t \<in> set website_template.
     set (initial_arrays (step_dependencies t)) \<subseteq> set (map step_id website_template)"
  by (simp add: website_template_def template_step_def initial_arrays_def)

lemma automation_initial_arrays:
  "\<forall>t \<in> set automation_template.
     set (initial_arrays (step_dependencies t)) \<subseteq> set (map step_id automation_template)"
  by (simp add: automation_template_def template_step_def initial_arrays_def)

lemma templates_initial_arrays:
  assumes "jsmap_get projectType initializeTemplates = Some template"
  shows "\<forall>t \<in> set template.
           set (initial_arrays (step_dependencies t)) \<subseteq> set (map step_id template)"
proof -
  have "template = website_template \<or> template = automation_template"
    using assms by (auto simp: templates_keys split: if_splits)
  then show ?thesis
    using website_initial_arrays automation_initial_arrays by blast
qed

lemma customized_step:
  assumes "g \<in> set (customizeSteps clk template requirements)"
  shows "\<exists>t n. t \<in> set template \<and> step_id g = step_id t @ ''_'' @ show_nat n
           \<and> step_dependencies g = step_dependencies t"
proof -
  let ?kept = "filter (\<lambda>t. shouldIncludeStep t requirements) template"
  from assms obtain i where i: "i < length ?kept"
      and g: "g = customizeSteps clk template requirements ! i"
    by (auto simp: in_set_conv_nth customizeSteps_length)
  have "?kept ! i \<in> set ?kept" using i by (rule nth_mem)
  then have "?kept ! i \<in> set template" by simp
  moreover have "step_id g = step_id (?kept ! i) @ ''_'' @ show_nat (clk i)"
    and "step_dependencies g = step_dependencies (?kept ! i)"
    using g customizeSteps_nth [OF i, of clk] by simp_all
  ultimately show ?thesis by blast
qed

lemma customized_deps_dangle:
  assumes plain: "\<forall>t \<in> set template. last (step_id t) \<notin> decimal_digits"
      and deps: "\<forall>t \<in> set template.
                   set (h (step_dependencies t)) \<subseteq> set (map step_id template)"
      and g: "g \<in> set (customizeSteps clk template requirements)"
      and d: "d \<in> set (h (step_dependencies g))"
  shows "d \<in> set (map step_id template)
       \<and> d \<notin> set (map step_id (customizeSteps clk template requirements))"
proof -
  obtain t n where t: "t \<in> set template" "step_dependencies g = step_dependencies t"
    using customized_step [OF g] by blast
  with d deps have din: "d \<in> set (map step_id template)" by auto
  then have dl: "last d \<notin> decimal_digits" using plain by auto
  have "d \<noteq> step_id u" if u: "u \<in> set (customizeSteps clk template requirements)" for u
  proof -
    obtain v :: ExecutionStep and m where "step_id u = step_id v @ ''_'' @ show_nat m"
      using customized_step [OF u] by blast
    then have "last (step_id u) \<in> decimal_digits" using last_suffixed by simp
    with dl show ?thesis by auto
  qed
  with din show ?thesis by auto
qed

section \<open>Facts about durations and about \<^verbatim>\<open>addStep\<close>\<close>

lemma customizeSteps_durations:
  "map step_estimatedDuration (customizeSteps clk template requirements)
     = map (\<lambda>t. adjustDuration t requirements) (kept_steps template requirements)"
proof -
  have "map step_estimatedDuration (customizeSteps clk template requirements)
      = map ((\<lambda>t. adjustDuration t requirements) \<circ> snd)
          (enumerate 0 (kept_steps template requirements))"
    by (simp add: customizeSteps_def customizeSteps_from_eq kept_steps_def comp_def
          case_prod_beta)
  also have "\<dots> = map (\<lambda>t. adjustDuration t requirements)
                    (map snd (enumerate 0 (kept_steps template requirements)))"
    by (simp only: map_map)
  finally show ?thesis by (simp only: map_snd_enumerate)
qed

lemma createPlan_total:
  assumes "jsmap_get projectType initializeTemplates = Some template"
  shows "plan_estimatedDuration (projr (fst (createPlan clk projectId projectType requirements s)))
     = sum_list (map (\<lambda>t. of_int (round (step_estimatedDuration t
                                * complexity_multiplier requirements)))
         (kept_steps template requirements))"
  by (simp add: createPlan_found(3) [OF assms] calculateTotalDuration_sum
        customizeSteps_durations adjustDuration_multiplier)

lemma apply_updates_steps:
  "apply_updates plan (no_updates\<lparr>upd_steps := Some steps\<rparr>) now
     = plan\<lparr>plan_steps := steps, plan_updatedAt := now\<rparr>"
  by (cases plan) (simp add: apply_updates_def no_updates_def)

lemma addStep_found:
  assumes "jsmap_get planId (pl_plans s) = Some plan"
  shows "addStep clk planId step s =
     (Inr (plan\<lparr>plan_steps := plan_steps plan @ [step], plan_updatedAt := clk 0\<rparr>),
      s\<lparr>pl_plans :=
          jsmap_set planId
            (plan\<lparr>plan_steps := plan_steps plan @ [step], plan_updatedAt := clk 0\<rparr>)
            (pl_plans s)\<rparr>)"
  using assms
  by (simp add: addStep_def updatePlan_def apply_updates_steps Let_def)

section \<open>The planner on the fixtures\<close>

lemma website_found: "jsmap_get ''website'' initializeTemplates = Some website_template"
  by (simp add: templates_keys)

lemma automation_found: "jsmap_get ''automation'' initializeTemplates = Some automation_template"
  by (simp add: templates_keys)

lemma customizeSteps_names:
  "map step_name (customizeSteps clk template requirements)
     = map step_name (kept_steps template requirements)"
proof -
  have "map step_name (customizeSteps clk template requirements)
      = map (step_name \<circ> snd) (enumerate 0 (kept_steps template requirements))"
    by (simp add: customizeSteps_def customizeSteps_from_eq kept_steps_def comp_def
          case_prod_beta)
  also have "\<dots> = map step_name (map snd (enumerate 0 (kept_steps template requirements)))"
    by (simp only: map_map)
  finally show ?thesis by (simp only: map_snd_enumerate)
qed

lemma returned_plan_createPlan:
  assumes "jsmap_get projectType initializeTemplates = Some template"
  shows "returned_plan (createPlan clk projectId projectType requirements s)
           = Some (projr (fst (createPlan clk projectId projectType requirements s)))"
  using assms by (simp add: returned_plan_def createPlan_def Let_def)

lemma returned_names:
  assumes "jsmap_get projectType initializeTemplates = Some template"
  shows "map_option (map step_name \<circ> plan_steps)
           (returned_plan (createPlan clk projectId projectType requirements s))
         = Some (map step_name (kept_steps template requirements))"
  by (simp add: returned_plan_createPlan [OF assms] createPlan_found(2) [OF assms]
        customizeSteps_names)

lemma kept_automation_all: "kept_steps automation_template requirements = automation_template"
  by (simp add: kept_steps_def automation_template_def template_step_def shouldIncludeStep_def)

lemma automation_names:
  "map step_name automation_template =
     [''Analyze Automation Requirements'', ''Design Workflow'', ''Setup Integrations'',
      ''Create Automation Workflow'', ''Setup Monitoring and Alerts'', ''Test Automation'',
      ''Deploy Automation'']"
  by (simp add: automation_template_def template_step_def)

lemma kept_website_cms_yes:
  "map step_name (kept_steps website_template cms_yes) =
     [''Setup GitHub Repository'', ''Initialize Project Structure'',
      ''Design System Architecture'', ''Setup Database'', ''Create Backend API'',
      ''Create Frontend Interface'', ''Setup Deployment Pipeline'',
      ''Testing and Quality Assurance'', ''Deploy to Production'']"
  by (simp add: kept_steps_def website_template_def template_step_def shouldIncludeStep_def
        cms_yes_def jsmap_get_def jsmap_has_def)

lemma show_nat_1001: "show_nat 1001 = ''1001''"
  by code_simp

lemma show_nat_1007: "show_nat 1007 = ''1007''"
  by code_simp

lemma kept_true_website_cms_on: "filter (kept_if_true cms_on) website_template = website_template"
  by (simp add: website_template_def template_step_def kept_if_true_def gating_key_def
        cms_on_def jsmap_get_def)

lemma automation_second:
  "step_id (automation_template ! 1) = ''design_workflow''"
  "initial_arrays (step_dependencies (automation_template ! 1)) = [''analyze_requirements'']"
  "length automation_template = 7"
  by (simp_all add: automation_template_def template_step_def initial_arrays_def)

lemma kept_website_high:
  "map step_estimatedDuration (kept_steps website_template high_complexity)
     = [30, 45, 60, 90, 180, 240, 90, 120, 60]"
  by (simp add: kept_steps_def website_template_def template_step_def shouldIncludeStep_def
        high_complexity_def jsmap_get_def jsmap_has_def)

lemma multiplier_high: "complexity_multiplier high_complexity = 3 / 2"
  by (simp add: complexity_multiplier_def high_complexity_def jsmap_get_def)

lemma floor_rat_numeral:
  "\<lfloor>numeral a / numeral b :: rat\<rfloor> = numeral a div numeral b"
  using floor_divide_of_int_eq [of "numeral a" "numeral b", where ?'a = rat] by simp

lemma sum_map_durations:
  "sum_list (map (\<lambda>t. f (step_estimatedDuration t)) steps)
     = sum_list (map f (map step_estimatedDuration steps))"
  by (simp add: comp_def)

lemma automation_durations:
  "map step_estimatedDuration automation_template = [60, 90, 120, 180, 90, 120, 60]"
  by (simp add: automation_template_def template_step_def)

lemma multiplier_none: "complexity_multiplier no_requirements = 1"
  by (simp add: complexity_multiplier_def no_requirements_def jsmap_get_def)

lemma createPlan_stored:
  assumes "jsmap_get projectType initializeTemplates = Some template"
  shows "plan_id (projr (fst (createPlan clk projectId projectType requirements s)))
           = ''plan_'' @ projectId @ ''_''
               @ show_nat (clk (length (kept_steps template requirements)))"
    and "snd (createPlan clk projectId projectType requirements s)
           = s\<lparr>pl_plans :=
                 jsmap_set (plan_id (projr (fst (createPlan clk projectId projectType
                                                   requirements s))))
                   (projr (fst (createPlan clk projectId projectType requirements s)))
                   (pl_plans s)\<rparr>"
  using assms by (simp_all add: createPlan_def Let_def customizeSteps_length kept_steps_def)

lemma planned_plan:
  "getPlan ''plan_project_1000_1007'' planned
     = Some (projr (fst (createPlan (ticking 1000) ''project_1000'' ''automation''
                           no_requirements new_planner)))"
proof -
  let ?r = "createPlan (ticking 1000) ''project_1000'' ''automation'' no_requirements new_planner"
  have "ticking 1000 (length automation_template) = 1007"
    by (simp add: automation_second(3) ticking_def)
  then have i: "plan_id (projr (fst ?r)) = ''plan_project_1000_1007''"
    by (simp add: createPlan_stored(1) [OF automation_found] kept_automation_all show_nat_1007)
  have "pl_plans planned = jsmap_set ''plan_project_1000_1007'' (projr (fst ?r)) []"
    unfolding planned_def createPlan_stored(2) [OF automation_found] i
    by (simp add: new_planner_def)
  then show ?thesis
    by (simp add: getPlan_def jsmap_get_def)
qed

lemma planned_total:
  "plan_estimatedDuration (projr (fst (createPlan (ticking 1000) ''project_1000'' ''automation''
       no_requirements new_planner))) = 720"
  "calculateTotalDuration (plan_steps (projr (fst (createPlan (ticking 1000) ''project_1000''
       ''automation'' no_requirements new_planner)))) = 720"
proof -
  let ?p = "projr (fst (createPlan (ticking 1000) ''project_1000'' ''automation''
       no_requirements new_planner))"
  have "plan_estimatedDuration ?p
      = sum_list (map (\<lambda>d. of_int (round (d * 1)))
          (map step_estimatedDuration automation_template))"
    by (simp add: createPlan_total [OF automation_found] multiplier_none kept_automation_all
          comp_def)
  also have "\<dots> = 720"
    unfolding automation_durations by simp
  finally show "plan_estimatedDuration ?p = 720" .
  then show "calculateTotalDuration (plan_steps ?p) = 720"
    by (simp add: createPlan_found(2,3) [OF automation_found])
qed

section \<open>Plans generated within one millisecond, and the fold of durations\<close>

lemma customizeSteps_frozen_ids:
  "map step_id (customizeSteps (frozen t) template requirements)
     = map (\<lambda>u. step_id u @ ''_'' @ show_nat t) (kept_steps template requirements)"
proof -
  have "map step_id (customizeSteps (frozen t) template requirements)
      = map ((\<lambda>u. step_id u @ ''_'' @ show_nat t) \<circ> snd)
          (enumerate 0 (kept_steps template requirements))"
    by (simp add: customizeSteps_def customizeSteps_from_eq kept_steps_def comp_def
          case_prod_beta frozen_def)
  also have "\<dots> = map (\<lambda>u. step_id u @ ''_'' @ show_nat t)
                    (map snd (enumerate 0 (kept_steps template requirements)))"
    by (simp only: map_map)
  finally show ?thesis by (simp only: map_snd_enumerate)
qed

lemma customizeSteps_refs:
  "map step_dependencies (customizeSteps clk template requirements)
     = map step_dependencies (kept_steps template requirements)"
proof -
  have "map step_dependencies (customizeSteps clk template requirements)
      = map (step_dependencies \<circ> snd) (enumerate 0 (kept_steps template requirements))"
    by (simp add: customizeSteps_def customizeSteps_from_eq kept_steps_def comp_def
          case_prod_beta)
  also have "\<dots> = map step_dependencies
                    (map snd (enumerate 0 (kept_steps template requirements)))"
    by (simp only: map_map)
  finally show ?thesis by (simp only: map_snd_enumerate)
qed

lemma automation_ids_refs:
  "map step_id automation_template =
     [''analyze_requirements'', ''design_workflow'', ''setup_integrations'',
      ''create_workflow'', ''setup_monitoring'', ''testing_automation'', ''deploy_automation'']"
  "map step_dependencies automation_template = [10, 11, 12, 13, 14, 15, 16]"
  by (simp_all add: automation_template_def template_step_def)

lemma frozen_automation_plan:
  "map step_id (plan_steps (projr (fst (createPlan (frozen 1000) projectId ''automation''
       requirements s)))) =
     [''analyze_requirements_1000'', ''design_workflow_1000'', ''setup_integrations_1000'',
      ''create_workflow_1000'', ''setup_monitoring_1000'', ''testing_automation_1000'',
      ''deploy_automation_1000'']"
  "map step_dependencies (plan_steps (projr (fst (createPlan (frozen 1000) projectId
       ''automation'' requirements s)))) = [10, 11, 12, 13, 14, 15, 16]"
proof -
  let ?p = "projr (fst (createPlan (frozen 1000) projectId ''automation'' requirements s))"
  have "map step_id (plan_steps ?p)
      = map (\<lambda>u. step_id u @ ''_'' @ show_nat 1000) automation_template"
    by (simp add: createPlan_found(2) [OF automation_found] customizeSteps_frozen_ids
          kept_automation_all)
  also have "\<dots> = [''analyze_requirements_1000'', ''design_workflow_1000'',
      ''setup_integrations_1000'', ''create_workflow_1000'', ''setup_monitoring_1000'',
      ''testing_automation_1000'', ''deploy_automation_1000'']"
    by (simp add: automation_template_def template_step_def show_nat_1000)
  finally show "map step_id (plan_steps ?p) = [''analyze_requirements_1000'',
      ''design_workflow_1000'', ''setup_integrations_1000'', ''create_workflow_1000'',
      ''setup_monitoring_1000'', ''testing_automation_1000'', ''deploy_automation_1000'']" .
  show "map step_dependencies (plan_steps ?p) = [10, 11, 12, 13, 14, 15, 16]"
    by (simp add: createPlan_found(2) [OF automation_found] customizeSteps_refs
          kept_automation_all automation_ids_refs(2))
qed

lemma nth_of_map: "map f xs = ys \<Longrightarrow> i < length ys \<Longrightarrow> f (xs ! i) = ys ! i"
  by (metis length_map nth_map)

lemma written_arrays_eq:
  "written_arrays = array_push 11 ''analyze_requirements_1000'' initial_arrays"
proof -
  let ?p = "projr (fst first_result)"
  have r: "returned_plan first_result = Some ?p"
    unfolding first_result_def by (rule returned_plan_createPlan [OF automation_found])
  have "step_dependencies (plan_steps ?p ! 1) = 11"
    using nth_of_map [OF frozen_automation_plan(2), of 1 "''project_1000''" no_requirements
        new_planner]
    by (simp add: first_result_def)
  moreover have "step_id (plan_steps ?p ! 0) = ''analyze_requirements_1000''"
    using nth_of_map [OF frozen_automation_plan(1), of 0 "''project_1000''" no_requirements
        new_planner]
    by (simp add: first_result_def)
  ultimately show ?thesis
    by (simp add: written_arrays_def r)
qed

lemma reduce_durations_snoc:
  "reduce_durations add (steps @ [step])
     = add (reduce_durations add steps) (step_estimatedDuration step)"
  by (simp add: reduce_durations_def)

section \<open>Which template steps a generated plan keeps\<close>

text \<open>
  Claim C2: an automation plan generated with \<^verbatim>\<open>monitoring=false\<close> omits the step
  "Setup Monitoring and Alerts", and the same generation with \<^verbatim>\<open>monitoring=true\<close>
  includes it. The automation template marks the step as required, so
  \<^verbatim>\<open>shouldIncludeStep\<close> returns before it reaches its \<^verbatim>\<open>setup_monitoring\<close> case: the
  plan generated with \<^verbatim>\<open>monitoring=false\<close> holds all seven steps of the template, the
  monitoring step among them, as does the plan generated with \<^verbatim>\<open>monitoring=true\<close>.
\<close>

theorem C2_monitoring_kept_when_off:
  "jsmap_get ''monitoring'' monitoring_off = Some (JBool False)
   \<and> map_option (map step_name \<circ> plan_steps)
       (returned_plan
          (createPlan (ticking 1000) ''project_1000'' ''automation'' monitoring_off new_planner))
     = Some [''Analyze Automation Requirements'', ''Design Workflow'', ''Setup Integrations'',
         ''Create Automation Workflow'', ''Setup Monitoring and Alerts'', ''Test Automation'',
         ''Deploy Automation'']
   \<and> jsmap_get ''monitoring'' monitoring_on = Some (JBool True)
   \<and> map_option (map step_name \<circ> plan_steps)
       (returned_plan
          (createPlan (ticking 1000) ''project_1000'' ''automation'' monitoring_on new_planner))
     = Some [''Analyze Automation Requirements'', ''Design Workflow'', ''Setup Integrations'',
         ''Create Automation Workflow'', ''Setup Monitoring and Alerts'', ''Test Automation'',
         ''Deploy Automation'']"
  by (simp add: returned_names [OF automation_found] kept_automation_all automation_names
        monitoring_off_def monitoring_on_def jsmap_get_def)

text \<open>
  Claim C4, as stated: the kept steps are the required template steps and the
  optional steps whose gating requirement key is present with a truthy value. With
  \<^verbatim>\<open>cms\<close> mapped to the string \<^verbatim>\<open>'yes'\<close>, which is truthy, that set holds the step
  "Setup Content Management" of the website template; the generated plan does not.
\<close>

theorem C4_counterexample:
  "jsmap_get ''cms'' cms_yes = Some (JStr ''yes'')
   \<and> truthy (JStr ''yes'') = True
   \<and> map step_name (filter (kept_if_truthy cms_yes) website_template) =
       [''Setup GitHub Repository'', ''Initialize Project Structure'',
        ''Design System Architecture'', ''Setup Database'', ''Create Backend API'',
        ''Create Frontend Interface'', ''Setup Content Management'',
        ''Setup Deployment Pipeline'', ''Testing and Quality Assurance'',
        ''Deploy to Production'']
   \<and> map_option (map step_name \<circ> plan_steps)
       (returned_plan
          (createPlan (ticking 1000) ''project_1000'' ''website'' cms_yes new_planner))
     = Some [''Setup GitHub Repository'', ''Initialize Project Structure'',
         ''Design System Architecture'', ''Setup Database'', ''Create Backend API'',
         ''Create Frontend Interface'', ''Setup Deployment Pipeline'',
         ''Testing and Quality Assurance'', ''Deploy to Production'']"
proof -
  have "map step_name (filter (kept_if_truthy cms_yes) website_template) =
       [''Setup GitHub Repository'', ''Initialize Project Structure'',
        ''Design System Architecture'', ''Setup Database'', ''Create Backend API'',
        ''Create Frontend Interface'', ''Setup Content Management'',
        ''Setup Deployment Pipeline'', ''Testing and Quality Assurance'',
        ''Deploy to Production'']"
    by (simp add: website_template_def template_step_def kept_if_truthy_def gating_key_def
          cms_yes_def jsmap_get_def)
  then show ?thesis
    by (simp add: returned_names [OF website_found] kept_website_cms_yes)
       (simp add: cms_yes_def jsmap_get_def)
qed

text \<open>
  Claim C4, amended: for every project type that has a template and every requirement
  map, the steps of the generated plan are, in template order, exactly the template
  steps with \<^verbatim>\<open>required=true\<close> and the optional steps whose gating requirement key is
  present with the boolean value \<^verbatim>\<open>true\<close> (compared with \<^verbatim>\<open>===\<close>); every other optional
  step is excluded. Each generated step differs from its template step in the id and
  the estimated duration only.
\<close>

theorem C4_kept_steps:
  assumes "jsmap_get projectType initializeTemplates = Some template"
      and "createPlan clk projectId projectType requirements s = (Inr plan, s')"
  shows "list_all2 from_template_step (plan_steps plan)
           (filter (kept_if_true requirements) template)"
proof -
  have "plan_steps plan = customizeSteps clk template requirements"
    using assms createPlan_found(2) [OF assms(1), of clk projectId requirements s] by simp
  then show ?thesis
    using customizeSteps_from_template [of clk template requirements]
    by (simp add: kept_templates [OF assms(1)])
qed

theorem C4_kept_steps_witness:
  "jsmap_get ''website'' initializeTemplates = Some website_template
   \<and> (\<exists>plan s'.
         createPlan (ticking 1000) ''project_1000'' ''website'' cms_on new_planner = (Inr plan, s')
         \<and> list_all2 from_template_step (plan_steps plan) website_template
         \<and> length (plan_steps plan) = 10)"
proof -
  let ?r = "createPlan (ticking 1000) ''project_1000'' ''website'' cms_on new_planner"
  have h: "?r = (Inr (projr (fst ?r)), snd ?r)"
    by (rule createPlan_found(1) [OF website_found])
  have a: "list_all2 from_template_step (plan_steps (projr (fst ?r))) website_template"
    using C4_kept_steps [OF website_found h] by (simp add: kept_true_website_cms_on)
  then have "length (plan_steps (projr (fst ?r))) = length website_template"
    by (rule list_all2_lengthD)
  then have "length (plan_steps (projr (fst ?r))) = 10"
    by (simp add: website_template_def)
  with h a website_found show ?thesis by blast
qed

section \<open>Step identities and dependencies of a generated plan\<close>

text \<open>
  Claim C5, as stated: in every plan that \<^verbatim>\<open>createPlan\<close> returns, the dependencies
  list of a step holds unsuffixed template ids, and so no entry of it is the id of a
  step of the same plan. \<^verbatim>\<open>customizeSteps\<close> copies a template step with an object
  spread, so a generated step shares its dependencies array with the template step
  and with the steps of every other plan generated from it. After the caller has
  pushed the id of the first plan's first step onto the dependencies array of its
  second step, the plan returned by a second call in the same millisecond has a first
  step with that very id, and the dependencies of its second step hold it: an entry
  that is no template id and is the id of a step of the same plan.
\<close>

theorem C5_counterexample:
  "map_option (map step_id \<circ> plan_steps) (returned_plan first_result) =
     Some [''analyze_requirements_1000'', ''design_workflow_1000'', ''setup_integrations_1000'',
       ''create_workflow_1000'', ''setup_monitoring_1000'', ''testing_automation_1000'',
       ''deploy_automation_1000'']
   \<and> map_option (map step_dependencies \<circ> plan_steps) (returned_plan first_result) =
       Some [10, 11, 12, 13, 14, 15, 16]
   \<and> written_arrays = array_push 11 ''analyze_requirements_1000'' initial_arrays
   \<and> map_option (map step_id \<circ> plan_steps) (returned_plan second_result) =
       Some [''analyze_requirements_1000'', ''design_workflow_1000'',
         ''setup_integrations_1000'', ''create_workflow_1000'', ''setup_monitoring_1000'',
         ''testing_automation_1000'', ''deploy_automation_1000'']
   \<and> map_option (map (written_arrays \<circ> step_dependencies) \<circ> plan_steps)
       (returned_plan second_result) =
       Some [[], [''analyze_requirements'', ''analyze_requirements_1000''],
         [''design_workflow''], [''setup_integrations''], [''create_workflow''],
         [''setup_monitoring''], [''testing_automation'']]"
proof -
  have r1: "returned_plan first_result = Some (projr (fst first_result))"
    unfolding first_result_def by (rule returned_plan_createPlan [OF automation_found])
  have r2: "returned_plan second_result = Some (projr (fst second_result))"
    unfolding second_result_def by (rule returned_plan_createPlan [OF automation_found])
  have d: "map (written_arrays \<circ> step_dependencies) (plan_steps (projr (fst second_result)))
      = map written_arrays [10, 11, 12, 13, 14, 15, 16]"
    unfolding map_comp_map [symmetric] comp_apply second_result_def frozen_automation_plan(2)
    by (rule refl)
  show ?thesis
    unfolding r1 r2 option.map comp_apply d
    by (simp add: first_result_def second_result_def frozen_automation_plan written_arrays_eq
          array_push_def initial_arrays_def)
qed

text \<open>
  Claim C5, amended: in every plan that \<^verbatim>\<open>createPlan\<close> returns, the id of the \<open>i\<close>-th
  generated step is the id of the \<open>i\<close>-th kept template step followed by an underscore
  and the clock reading taken for it, while its dependencies list is the template
  step's own array, shared and not copied. As long as those arrays hold template ids
  only, as they do when the planner is constructed and until a caller writes to the
  dependencies of a returned step, every entry of a step's dependencies is an
  unsuffixed template id and none is the id of a step of the same plan.
\<close>

theorem C5_dependencies_shared:
  assumes "jsmap_get projectType initializeTemplates = Some template"
      and "createPlan clk projectId projectType requirements s = (Inr plan, s')"
      and "\<forall>t \<in> set template. set (h (step_dependencies t)) \<subseteq> set (map step_id template)"
  shows "length (plan_steps plan) = length (kept_steps template requirements)
       \<and> (\<forall>i < length (kept_steps template requirements).
             step_id (plan_steps plan ! i)
               = step_id (kept_steps template requirements ! i) @ ''_'' @ show_nat (clk i)
           \<and> step_dependencies (plan_steps plan ! i)
               = step_dependencies (kept_steps template requirements ! i))
       \<and> (\<forall>st \<in> set (plan_steps plan). \<forall>d \<in> set (h (step_dependencies st)).
             d \<in> set (map step_id template) \<and> d \<notin> set (map step_id (plan_steps plan)))"
proof -
  have steps: "plan_steps plan = customizeSteps clk template requirements"
    using assms createPlan_found(2) [OF assms(1), of clk projectId requirements s] by simp
  have "length (plan_steps plan) = length (kept_steps template requirements)"
    by (simp add: steps customizeSteps_length kept_steps_def)
  moreover have "\<forall>i < length (kept_steps template requirements).
             step_id (plan_steps plan ! i)
               = step_id (kept_steps template requirements ! i) @ ''_'' @ show_nat (clk i)
           \<and> step_dependencies (plan_steps plan ! i)
               = step_dependencies (kept_steps template requirements ! i)"
    by (simp add: steps kept_steps_def customizeSteps_nth)
  moreover have "\<forall>st \<in> set (plan_steps plan). \<forall>d \<in> set (h (step_dependencies st)).
             d \<in> set (map step_id template) \<and> d \<notin> set (map step_id (plan_steps plan))"
    unfolding steps
    using customized_deps_dangle [OF templates_plain [OF assms(1)] assms(3)] by blast
  ultimately show ?thesis by blast
qed

theorem C5_dependencies_shared_witness:
  "jsmap_get ''automation'' initializeTemplates = Some automation_template
   \<and> map (initial_arrays \<circ> step_dependencies) automation_template =
       [[], [''analyze_requirements''], [''design_workflow''], [''setup_integrations''],
        [''create_workflow''], [''setup_monitoring''], [''testing_automation'']]
   \<and> (\<exists>plan s'.
         createPlan (ticking 1000) ''project_1000'' ''automation'' no_requirements new_planner
           = (Inr plan, s')
         \<and> length (plan_steps plan) = 7
         \<and> step_id (plan_steps plan ! 1) = ''design_workflow_1001''
         \<and> initial_arrays (step_dependencies (plan_steps plan ! 1)) = [''analyze_requirements'']
         \<and> ''analyze_requirements'' \<notin> set (map step_id (plan_steps plan)))"
proof -
  let ?r = "createPlan (ticking 1000) ''project_1000'' ''automation'' no_requirements new_planner"
  let ?p = "projr (fst ?r)"
  have h: "?r = (Inr ?p, snd ?r)"
    by (rule createPlan_found(1) [OF automation_found])
  note a = templates_initial_arrays [OF automation_found]
  note c5 = C5_dependencies_shared [OF automation_found h a, unfolded kept_automation_all]
  have len: "length (plan_steps ?p) = 7"
    using c5 by (simp add: automation_second(3))
  have t: "ticking 1000 1 = 1001"
    by (simp add: ticking_def)
  have i1: "(1::nat) < length automation_template"
    by (simp add: automation_second(3))
  from c5 i1 have raw:
      "step_id (plan_steps ?p ! 1)
         = step_id (automation_template ! 1) @ ''_'' @ show_nat (ticking 1000 1)"
      "step_dependencies (plan_steps ?p ! 1) = step_dependencies (automation_template ! 1)"
    by blast+
  have id2: "step_id (plan_steps ?p ! 1) = ''design_workflow_1001''"
    using raw(1) unfolding t show_nat_1001 automation_second(1) by simp
  have deps2: "initial_arrays (step_dependencies (plan_steps ?p ! 1)) = [''analyze_requirements'']"
    unfolding raw(2) by (rule automation_second(2))
  have "plan_steps ?p ! 1 \<in> set (plan_steps ?p)"
    using len by (intro nth_mem) simp
  moreover have "''analyze_requirements''
      \<in> set (initial_arrays (step_dependencies (plan_steps ?p ! 1)))"
    unfolding deps2 by simp
  ultimately have "''analyze_requirements'' \<notin> set (map step_id (plan_steps ?p))"
    using c5 by blast
  moreover have "map (initial_arrays \<circ> step_dependencies) automation_template =
       [[], [''analyze_requirements''], [''design_workflow''], [''setup_integrations''],
        [''create_workflow''], [''setup_monitoring''], [''testing_automation'']]"
    by (simp add: automation_template_def template_step_def initial_arrays_def)
  ultimately show ?thesis
    using h len id2 deps2 automation_found by blast
qed

section \<open>The total estimated duration\<close>

text \<open>
  Claim C6: the total estimated duration of a generated plan is the sum, over the
  kept template steps, of the base duration times the complexity multiplier (1.5 for
  \<^verbatim>\<open>complexity = 'high'\<close>, 0.8 for \<^verbatim>\<open>'low'\<close>, 1.0 otherwise), each product rounded to
  the nearest whole number; and any two generations for the same project type from
  the same requirement map, at whatever time, for whatever project and from whatever
  planner state, yield the same total.
\<close>

theorem C6_total_duration:
  assumes "jsmap_get projectType initializeTemplates = Some template"
      and "createPlan clk projectId projectType requirements s = (Inr plan, s')"
  shows "plan_estimatedDuration plan
           = sum_list (map (\<lambda>t. of_int (round (step_estimatedDuration t
                                      * complexity_multiplier requirements)))
               (kept_steps template requirements))
       \<and> (\<forall>clk2 projectId2 s2 plan2 s2'.
             createPlan clk2 projectId2 projectType requirements s2 = (Inr plan2, s2')
               \<longrightarrow> plan_estimatedDuration plan2 = plan_estimatedDuration plan)"
proof -
  have total: "plan_estimatedDuration p
           = sum_list (map (\<lambda>t. of_int (round (step_estimatedDuration t
                                      * complexity_multiplier requirements)))
               (kept_steps template requirements))"
    if "createPlan c i projectType requirements t = (Inr p, t')" for c i t p t'
    using that createPlan_total [OF assms(1), of c i requirements t] by simp
  show ?thesis using total [OF assms(2)] total by simp
qed

theorem C6_total_duration_witness:
  "jsmap_get ''website'' initializeTemplates = Some website_template
   \<and> (\<exists>plan s'.
         createPlan (ticking 1000) ''project_1000'' ''website'' high_complexity new_planner
           = (Inr plan, s')
         \<and> plan_estimatedDuration plan = 1373)"
proof -
  let ?r = "createPlan (ticking 1000) ''project_1000'' ''website'' high_complexity new_planner"
  have h: "?r = (Inr (projr (fst ?r)), snd ?r)"
    by (rule createPlan_found(1) [OF website_found])
  have "plan_estimatedDuration (projr (fst ?r))
      = sum_list (map (\<lambda>d. of_int (round (d * (3 / 2))))
          (map step_estimatedDuration (kept_steps website_template high_complexity)))"
    using C6_total_duration [OF website_found h]
    by (simp add: multiplier_high comp_def)
  also have "\<dots> = 1373"
    unfolding kept_website_high by (simp add: round_def floor_rat_numeral)
  finally show ?thesis using h website_found by blast
qed

section \<open>Plan generation for a project type without a template\<close>

text \<open>
  Claim C7. For every project type that has no template, \<^verbatim>\<open>createPlan\<close> throws the
  error "No template found for project type: ..." and leaves the planner's plan store
  as it was: no plan record is stored.
\<close>

theorem C7_unknown_project_type:
  "jsmap_get projectType initializeTemplates = None \<Longrightarrow>
   createPlan clk projectId projectType requirements s =
     (Inl (Error (''No template found for project type: '' @ projectType)), s)"
  by (simp add: createPlan_def)

theorem C7_unknown_project_type_witness:
  "jsmap_get ''mobile'' initializeTemplates = None \<and>
   createPlan (\<lambda>i. 1000 + i) ''project_1'' ''mobile'' [] \<lparr>pl_plans = []\<rparr> =
     (Inl (Error ''No template found for project type: mobile''), \<lparr>pl_plans = []\<rparr>)"
proof -
  have h: "jsmap_get ''mobile'' initializeTemplates = None"
    by (simp add: jsmap_get_def initializeTemplates_def)
  show ?thesis
    using h C7_unknown_project_type
      [OF h, of "\<lambda>i. 1000 + i" "''project_1''" "[]" "\<lparr>pl_plans = []\<rparr>"]
    by simp
qed

section \<open>Adding a step to a stored plan\<close>

text \<open>
  Claim C10, as stated: after \<^verbatim>\<open>addStep\<close> the plan's \<^verbatim>\<open>estimatedDuration\<close> no longer
  equals the sum of the durations of its steps, for every stored plan and every step.
  For a step of duration 0 it still does: the automation plan of \<open>planned\<close> has an
  estimated duration of 720, the sum of its steps' durations, and both are 720 after
  \<open>notify_step\<close> has been added.
\<close>

theorem C10_counterexample:
  "step_estimatedDuration notify_step = 0
   \<and> map_option plan_estimatedDuration (getPlan ''plan_project_1000_1007'' planned) = Some 720
   \<and> map_option (calculateTotalDuration \<circ> plan_steps)
       (getPlan ''plan_project_1000_1007'' planned) = Some 720
   \<and> map_option plan_estimatedDuration
       (returned_plan (addStep (ticking 2000) ''plan_project_1000_1007'' notify_step planned))
       = Some 720
   \<and> map_option (calculateTotalDuration \<circ> plan_steps)
       (returned_plan (addStep (ticking 2000) ''plan_project_1000_1007'' notify_step planned))
       = Some 720"
proof -
  have d: "step_estimatedDuration notify_step = 0"
    by (simp add: notify_step_def template_step_def)
  have g: "jsmap_get ''plan_project_1000_1007'' (pl_plans planned)
     = Some (projr (fst (createPlan (ticking 1000) ''project_1000'' ''automation''
                           no_requirements new_planner)))"
    using planned_plan by (simp add: getPlan_def)
  show ?thesis
    by (simp add: planned_plan planned_total d returned_plan_def
          addStep_found [OF g] calculateTotalDuration_sum)
       (simp add: calculateTotalDuration_sum [symmetric] planned_total)
qed

text \<open>
  Claim C10, amended: for every stored plan and every step, \<^verbatim>\<open>addStep\<close> appends the
  step to the plan's steps, rewrites \<^verbatim>\<open>updatedAt\<close>, stores and returns the result, and
  leaves every other field of the plan unchanged; in particular \<^verbatim>\<open>estimatedDuration\<close>
  is not increased by the new step's duration. So, when the estimated duration was
  the sum of the steps' durations before, it is still that sum after \<^verbatim>\<open>addStep\<close>
  exactly if adding the new step's duration to it gives it back (a duration of 0, or
  one so small that the floating-point addition absorbs it), and otherwise it is no
  longer the sum. This holds whatever the addition is, the floating-point one and the
  exact one alike.
\<close>

theorem C10_addStep_frame:
  assumes "jsmap_get planId (pl_plans s) = Some plan"
  shows "addStep clk planId step s =
     (Inr (plan\<lparr>plan_steps := plan_steps plan @ [step], plan_updatedAt := clk 0\<rparr>),
      s\<lparr>pl_plans :=
          jsmap_set planId
            (plan\<lparr>plan_steps := plan_steps plan @ [step], plan_updatedAt := clk 0\<rparr>)
            (pl_plans s)\<rparr>)
     \<and> plan_estimatedDuration
           (plan\<lparr>plan_steps := plan_steps plan @ [step], plan_updatedAt := clk 0\<rparr>)
         = plan_estimatedDuration plan
     \<and> (plan_estimatedDuration plan = reduce_durations add (plan_steps plan)
        \<longrightarrow> (plan_estimatedDuration
                (plan\<lparr>plan_steps := plan_steps plan @ [step], plan_updatedAt := clk 0\<rparr>)
              = reduce_durations add
                  (plan_steps
                     (plan\<lparr>plan_steps := plan_steps plan @ [step], plan_updatedAt := clk 0\<rparr>)))
            = (add (plan_estimatedDuration plan) (step_estimatedDuration step)
                 = plan_estimatedDuration plan))"
  using addStep_found [OF assms, of clk step]
  by (auto simp: reduce_durations_snoc)

theorem C10_addStep_frame_witness:
  "getPlan ''plan_project_1000_1007'' planned \<noteq> None
   \<and> step_estimatedDuration audit_step = 45
   \<and> (\<exists>plan. jsmap_get ''plan_project_1000_1007'' (pl_plans planned) = Some plan
        \<and> plan_estimatedDuration plan = reduce_durations (+) (plan_steps plan)
        \<and> returned_plan (addStep (ticking 2000) ''plan_project_1000_1007'' audit_step planned)
            = Some (plan\<lparr>plan_steps := plan_steps plan @ [audit_step],
                          plan_updatedAt := 2000\<rparr>)
        \<and> plan_estimatedDuration plan = 720
        \<and> reduce_durations (+) (plan_steps plan @ [audit_step]) = 765)"
proof -
  let ?p = "projr (fst (createPlan (ticking 1000) ''project_1000'' ''automation''
                           no_requirements new_planner))"
  have g: "jsmap_get ''plan_project_1000_1007'' (pl_plans planned) = Some ?p"
    using planned_plan by (simp add: getPlan_def)
  have d: "step_estimatedDuration audit_step = 45"
    by (simp add: audit_step_def template_step_def)
  have e: "plan_estimatedDuration ?p = reduce_durations (+) (plan_steps ?p)"
    using planned_total by (simp add: calculateTotalDuration_def)
  have t: "ticking 2000 0 = 2000"
    by (simp add: ticking_def)
  have n: "reduce_durations (+) (plan_steps ?p @ [audit_step]) = 765"
    using planned_total d by (simp add: reduce_durations_snoc calculateTotalDuration_def)
  from C10_addStep_frame [OF g, of "ticking 2000" audit_step "(+)"] e d
  have "returned_plan (addStep (ticking 2000) ''plan_project_1000_1007'' audit_step planned)
            = Some (?p\<lparr>plan_steps := plan_steps ?p @ [audit_step], plan_updatedAt := 2000\<rparr>)"
    by (simp add: returned_plan_def t)
  with g e d n planned_total(1) show ?thesis by (simp add: getPlan_def)
qed

section \<open>Running a plan\<close>

text \<open>
  Claim C1, as stated: when the plan of a project holds a required step for which the
  executor reports failure, \<^verbatim>\<open>executeProjectPlan\<close> leaves plan and project in status
  \<^verbatim>\<open>failed\<close> and the step carries the error. The code does not do that: in
  \<open>failing_state\<close> the only step is required and \<^verbatim>\<open>executeStep\<close> is false for it, yet
  the call succeeds, the project ends \<^verbatim>\<open>completed\<close>, and the plan, still a draft, and
  its step, still without an error, are untouched.
\<close>

theorem C1_counterexample:
  "map plan_steps (jsmap_values (plans failing_state)) = [[failing_step]]
   \<and> step_required failing_step = True
   \<and> executeStep failing_step ''project_1000'' = False
   \<and> fst (executeProjectPlan (ticking 4000) ''project_1000'' failing_state) = Inr ()
   \<and> map proj_status (jsmap_values
        (projects (snd (executeProjectPlan (ticking 4000) ''project_1000'' failing_state))))
       = [Completed]
   \<and> plans (snd (executeProjectPlan (ticking 4000) ''project_1000'' failing_state))
       = plans failing_state
   \<and> map plan_status (jsmap_values (plans failing_state)) = [Draft]
   \<and> step_error failing_step = None"
  by (simp add: failing_state_def demo_state_eq demo_plan_def failing_step_def template_step_def
        executeProjectPlan_def executeProjectPlan_begin_def executeProjectPlan_finish_def
        resolvePlan_def jsmap_get_def jsmap_values_def executeStep_def executeStepByType_def)

text \<open>
  Claim C1, amended: \<^verbatim>\<open>executeProjectPlan\<close> never calls the executor and never looks
  at a step. For every project that exists and has a stored plan the call succeeds,
  the project ends in status \<^verbatim>\<open>completed\<close>, and the plan store (every plan's status,
  steps and step errors) is left as it was.
\<close>

theorem C1_always_completed:
  assumes "jsmap_get projectId (projects s) = Some project"
      and "resolvePlan projectId s = Some plan"
  shows "fst (executeProjectPlan clk projectId s) = Inr ()
       \<and> plans (snd (executeProjectPlan clk projectId s)) = plans s
       \<and> map_option proj_status
           (jsmap_get projectId (projects (snd (executeProjectPlan clk projectId s))))
           = Some Completed"
  using assms
  by (simp add: executeProjectPlan_def executeProjectPlan_begin_def
        executeProjectPlan_finish_def jsmap_get_set_same)

theorem C1_always_completed_witness:
  "jsmap_get ''project_1000'' (projects demo_planned) = Some demo_project
   \<and> resolvePlan ''project_1000'' demo_planned = Some (demo_plan 2000)
   \<and> fst (executeProjectPlan (ticking 4000) ''project_1000'' demo_planned) = Inr ()
   \<and> plans (snd (executeProjectPlan (ticking 4000) ''project_1000'' demo_planned))
       = plans demo_planned
   \<and> map_option proj_status (jsmap_get ''project_1000''
        (projects (snd (executeProjectPlan (ticking 4000) ''project_1000'' demo_planned))))
        = Some Completed"
  using C1_always_completed [OF demo_planned_project demo_planned_resolve, of "ticking 4000"]
  by (simp add: demo_planned_project demo_planned_resolve)

text \<open>
  Claim C3, as stated: \<^verbatim>\<open>executeProjectPlan\<close> resolves the most recently created plan
  of the project. In \<open>demo_planned\<close> the project has two plans, created at 2001 and at
  3001, and the plan resolved is the one created at 2001.
\<close>

theorem C3_counterexample:
  "map plan_projectId (jsmap_values (plans demo_planned)) = [''project_1000'', ''project_1000'']
   \<and> map plan_createdAt (jsmap_values (plans demo_planned)) = [2001, 3001]
   \<and> map_option plan_createdAt (resolvePlan ''project_1000'' demo_planned) = Some 2001"
  by (simp add: demo_planned_resolve) (simp add: demo_planned_eq jsmap_values_def demo_plan_def)

text \<open>
  Claim C3, amended: for every project that exists, \<^verbatim>\<open>executeProjectPlan\<close> resolves
  the first plan of that project in the insertion order of the plan map (the one
  stored earliest, not the one created last) and succeeds; if no stored plan belongs
  to the project it throws "No plan found for project ..." and the whole state, the
  project's status included, is unchanged.
\<close>

theorem C3_resolves_first_plan:
  assumes "jsmap_get projectId (projects s) = Some project"
  shows "case resolvePlan projectId s of
           Some plan \<Rightarrow>
             (\<exists>i < length (jsmap_values (plans s)).
                 jsmap_values (plans s) ! i = plan \<and> plan_projectId plan = projectId \<and>
                 (\<forall>j < i. plan_projectId (jsmap_values (plans s) ! j) \<noteq> projectId))
             \<and> fst (executeProjectPlan clk projectId s) = Inr ()
         | None \<Rightarrow>
             (\<forall>plan \<in> set (jsmap_values (plans s)). plan_projectId plan \<noteq> projectId)
             \<and> executeProjectPlan clk projectId s =
                 (Inl (Error (''No plan found for project '' @ projectId)), s)"
proof (cases "resolvePlan projectId s")
  case None
  then have "\<forall>plan \<in> set (jsmap_values (plans s)). plan_projectId plan \<noteq> projectId"
    by (auto simp: resolvePlan_def find_None_iff)
  moreover have "executeProjectPlan clk projectId s =
      (Inl (Error (''No plan found for project '' @ projectId)), s)"
    using assms None by (simp add: executeProjectPlan_def executeProjectPlan_begin_def)
  ultimately show ?thesis using None by simp
next
  case (Some plan)
  then have "\<exists>i < length (jsmap_values (plans s)).
       jsmap_values (plans s) ! i = plan \<and> plan_projectId plan = projectId \<and>
       (\<forall>j < i. plan_projectId (jsmap_values (plans s) ! j) \<noteq> projectId)"
    unfolding resolvePlan_def find_Some_iff by blast
  moreover have "fst (executeProjectPlan clk projectId s) = Inr ()"
    using assms Some by (simp add: executeProjectPlan_def executeProjectPlan_begin_def)
  ultimately show ?thesis using Some by simp
qed

theorem C3_resolves_first_plan_witness:
  "jsmap_get ''project_1000'' (projects demo_planned) = Some demo_project
   \<and> resolvePlan ''project_1000'' demo_planned = Some (demo_plan 2000)
   \<and> jsmap_values (plans demo_planned) ! 0 = demo_plan 2000
   \<and> fst (executeProjectPlan (ticking 4000) ''project_1000'' demo_planned) = Inr ()
   \<and> resolvePlan ''project_1000'' demo_state = None
   \<and> executeProjectPlan (ticking 4000) ''project_1000'' demo_state =
       (Inl (Error ''No plan found for project project_1000''), demo_state)"
proof -
  have p: "jsmap_get ''project_1000'' (projects demo_state) = Some demo_project"
    by (simp add: demo_state_eq jsmap_get_def)
  have n: "resolvePlan ''project_1000'' demo_state = None"
    by (simp add: resolvePlan_def demo_state_eq jsmap_values_def)
  have v: "jsmap_values (plans demo_planned) ! 0 = demo_plan 2000"
    by (simp add: demo_planned_eq jsmap_values_def)
  show ?thesis
    using C3_resolves_first_plan [OF demo_planned_project, of "ticking 4000"]
      C3_resolves_first_plan [OF p, of "ticking 4000"]
    by (simp add: demo_planned_project demo_planned_resolve n v)
qed

section \<open>Generating a plan without a planner\<close>

text \<open>
  Claim C8, as stated: with no agent registered, \<^verbatim>\<open>generateExecutionPlan\<close> fails with
  an error that names the missing planner. The project is looked up first: on a fresh
  orchestrator, which has no agent and no project, the error is "Project ... not found".
\<close>

theorem C8_counterexample:
  "agents new_orchestrator = [] \<and>
   generateExecutionPlan (ticking 1000) ''project_1000'' new_orchestrator =
     (Inl (Error ''Project project_1000 not found''), new_orchestrator)"
  by (simp add: generateExecutionPlan_def new_orchestrator_def jsmap_get_def)

text \<open>
  Claim C8, amended: with no agent registered, \<^verbatim>\<open>generateExecutionPlan\<close> for a project
  that exists throws "Planner agent not found", and the state is unchanged: no plan
  record is stored.
\<close>

theorem C8_no_planner:
  "agents s = [] \<Longrightarrow> jsmap_get projectId (projects s) = Some project \<Longrightarrow>
   generateExecutionPlan clk projectId s = (Inl (Error ''Planner agent not found''), s)"
  by (simp add: generateExecutionPlan_def jsmap_get_def)

theorem C8_no_planner_witness:
  "agents demo_state = [] \<and> jsmap_get ''project_1000'' (projects demo_state) = Some demo_project \<and>
   generateExecutionPlan (ticking 2000) ''project_1000'' demo_state =
     (Inl (Error ''Planner agent not found''), demo_state)"
proof -
  have a: "agents demo_state = []"
    by (simp add: demo_state_eq)
  have p: "jsmap_get ''project_1000'' (projects demo_state) = Some demo_project"
    by (simp add: demo_state_eq jsmap_get_def)
  show ?thesis using a p C8_no_planner [OF a p, of "ticking 2000"] by simp
qed

section \<open>Project status transitions\<close>

text \<open>
  Claim C9, as stated: \<^verbatim>\<open>stopProject\<close> never moves a project in status \<^verbatim>\<open>planning\<close>
  to \<^verbatim>\<open>stopped\<close>. The project of \<open>demo_state\<close> has just been created, is in
  \<^verbatim>\<open>planning\<close>, and \<^verbatim>\<open>stopProject\<close> moves it to \<^verbatim>\<open>stopped\<close>.
\<close>

theorem C9_counterexample:
  "map proj_status (jsmap_values (projects demo_state)) = [Planning] \<and>
   map proj_status
     (jsmap_values (projects (snd (stopProject (ticking 2000) ''project_1000'' demo_state))))
     = [Stopped]"
  by (simp add: demo_state_eq demo_project_def stopProject_def jsmap_get_def jsmap_values_def)

text \<open>
  Claim C9, amended: the orchestrator's transitions do not depend on the status a
  project is in. For every project that exists, whatever its status,
  \<^verbatim>\<open>startProject\<close> moves it to \<^verbatim>\<open>active\<close> and \<^verbatim>\<open>stopProject\<close> moves it to \<^verbatim>\<open>stopped\<close>;
  if it has a plan, \<^verbatim>\<open>executeProjectPlan\<close> moves it to \<^verbatim>\<open>executing\<close> and from there to
  \<^verbatim>\<open>completed\<close>; \<^verbatim>\<open>generateExecutionPlan\<close> and \<^verbatim>\<open>registerAgent\<close> leave the projects as
  they are.
\<close>

theorem C9_unguarded_transitions:
  assumes "jsmap_get projectId (projects s) = Some project"
  shows "map_option proj_status
           (jsmap_get projectId (projects (snd (startProject clk projectId s)))) = Some Active
       \<and> map_option proj_status
           (jsmap_get projectId (projects (snd (stopProject clk projectId s)))) = Some Stopped
       \<and> (resolvePlan projectId s \<noteq> None \<longrightarrow>
            map_option proj_status
              (jsmap_get projectId (projects (snd (executeProjectPlan_begin clk projectId s))))
              = Some Executing
          \<and> map_option proj_status
              (jsmap_get projectId (projects (snd (executeProjectPlan clk projectId s))))
              = Some Completed)
       \<and> projects (snd (generateExecutionPlan clk projectId s)) = projects s
       \<and> projects (registerAgent agent s) = projects s"
  using assms
  by (auto simp: startProject_def stopProject_def executeProjectPlan_def
        executeProjectPlan_begin_def executeProjectPlan_finish_def jsmap_get_set_same
        generateExecutionPlan_def registerAgent_def Let_def split: option.splits)

theorem C9_unguarded_transitions_witness:
  "map_option proj_status (jsmap_get ''project_1000'' (projects demo_planned)) = Some Planning
   \<and> map_option proj_status (jsmap_get ''project_1000''
        (projects (snd (stopProject (ticking 4000) ''project_1000'' demo_planned)))) = Some Stopped
   \<and> map_option proj_status (jsmap_get ''project_1000''
        (projects (snd (startProject (ticking 4000) ''project_1000'' demo_planned)))) = Some Active
   \<and> resolvePlan ''project_1000'' demo_planned = Some (demo_plan 2000)
   \<and> map_option proj_status (jsmap_get ''project_1000''
        (projects (snd (executeProjectPlan (ticking 4000) ''project_1000'' demo_planned))))
        = Some Completed"
  using C9_unguarded_transitions [OF demo_planned_project, of "ticking 4000"]
  by (simp add: demo_planned_project demo_planned_resolve demo_project_def)

end
